theory Spec2Isabelle
  imports Complex_Main
begin

section \<open>Detection normalizer: \<open>ObjectDetector.postprocess\<close>\<close>

text \<open>
  The exceptions of the Python source are values. Only the class of an exception matters
  to the code (every handler is \<open>except Exception\<close>).
\<close>

datatype py_error = IndexError | TypeError | ValueError | MediaStreamError
  | ConnectionClosed | InvalidStateError | RuntimeError

text \<open>
  An element of an output tensor is a number, or an object on which \<open>float()\<close>,
  \<open>int()\<close>, arithmetic and comparison raise (\<open>None\<close> in an array of dtype object).
  Numbers are idealised as reals: rounding, infinities and NaN are outside the model.
\<close>

datatype elem = Num real | NonNum

text \<open>A numpy array: its shape and its elements in row-major order (what \<open>flatten\<close> returns).\<close>

record ndarray =
  shape :: "nat list"
  data :: "elem list"

definition ndim :: "ndarray \<Rightarrow> nat" where
  "ndim a = length (shape a)"

definition wf_ndarray :: "ndarray \<Rightarrow> bool" where
  "wf_ndarray a \<longleftrightarrow> length (data a) = prod_list (shape a)"

text \<open>The rows of a block of \<open>n\<close> rows of \<open>k\<close> elements each, read from the flat data.\<close>

definition rows :: "nat \<Rightarrow> nat \<Rightarrow> 'a list \<Rightarrow> 'a list list" where
  "rows n k xs = map (\<lambda>i. take k (drop (i * k) xs)) [0..<n]"

definition py_float :: "elem \<Rightarrow> py_error + real" where
  "py_float x = (case x of Num r \<Rightarrow> Inr r | NonNum \<Rightarrow> Inl TypeError)"

text \<open>\<open>int()\<close> of a float truncates towards zero.\<close>

definition py_int :: "elem \<Rightarrow> py_error + int" where
  "py_int x = (case x of Num r \<Rightarrow> Inr (if 0 \<le> r then \<lfloor>r\<rfloor> else - \<lfloor>- r\<rfloor>) | NonNum \<Rightarrow> Inl TypeError)"

text \<open>\<open>row[i]\<close> for a non-negative constant index.\<close>

definition item :: "'a list \<Rightarrow> nat \<Rightarrow> py_error + 'a" where
  "item xs i = (if i < length xs then Inr (xs ! i) else Inl IndexError)"

text \<open>Sequencing of steps that may raise: the first exception leaves the sequence.\<close>

definition and_then :: "py_error + 'a \<Rightarrow> ('a \<Rightarrow> py_error + 'b) \<Rightarrow> py_error + 'b" where
  "and_then m f = (case m of Inl e \<Rightarrow> Inl e | Inr x \<Rightarrow> f x)"

record detection =
  label :: string
  score :: real
  xmin :: real
  ymin :: real
  xmax :: real
  ymax :: real

definition class_names :: "string list" where
  "class_names =
    [''person'', ''bicycle'', ''car'', ''motorcycle'', ''airplane'', ''bus'', ''train'',
     ''truck'', ''boat'', ''traffic light'', ''fire hydrant'', ''stop sign'',
     ''parking meter'', ''bench'', ''bird'', ''cat'', ''dog'', ''horse'', ''sheep'', ''cow'',
     ''elephant'', ''bear'', ''zebra'', ''giraffe'', ''backpack'', ''umbrella'', ''handbag'',
     ''tie'', ''suitcase'', ''frisbee'', ''skis'', ''snowboard'', ''sports ball'', ''kite'',
     ''baseball bat'', ''baseball glove'', ''skateboard'', ''surfboard'', ''tennis racket'',
     ''bottle'', ''wine glass'', ''cup'', ''fork'', ''knife'', ''spoon'', ''bowl'', ''banana'',
     ''apple'', ''sandwich'', ''orange'', ''broccoli'', ''carrot'', ''hot dog'', ''pizza'',
     ''donut'', ''cake'', ''chair'', ''couch'', ''potted plant'', ''bed'', ''dining table'',
     ''toilet'', ''tv'', ''laptop'', ''mouse'', ''remote'', ''keyboard'', ''cell phone'',
     ''microwave'', ''oven'', ''toaster'', ''sink'', ''refrigerator'', ''book'', ''clock'',
     ''vase'', ''scissors'', ''teddy bear'', ''hair drier'', ''toothbrush'']"

text \<open>
  \<open>self.class_names[class_id] if class_id < len(self.class_names) else "unknown"\<close>.
  A Python list accepts the negative indices \<open>-len .. -1\<close>, counting from the end, and
  raises IndexError below \<open>-len\<close>.
\<close>

definition label_of :: "int \<Rightarrow> py_error + string" where
  "label_of class_id =
     (let n = int (length class_names) in
      if class_id < n then
        (if 0 \<le> class_id then Inr (class_names ! nat class_id)
         else if - n \<le> class_id then Inr (class_names ! nat (n + class_id))
         else Inl IndexError)
      else Inr ''unknown'')"

text \<open>
  \<open>np.argmax\<close>: the index of the first maximum. On an array of objects every element
  after the first is compared with the running maximum, so a non-number among two or more
  elements raises TypeError; a single element is never compared.
\<close>

fun argmax_from :: "real \<Rightarrow> nat \<Rightarrow> nat \<Rightarrow> real list \<Rightarrow> nat" where
  "argmax_from mp mi i [] = mi"
| "argmax_from mp mi i (v # vs) =
     (if mp < v then argmax_from v i (Suc i) vs else argmax_from mp mi (Suc i) vs)"

fun nums :: "elem list \<Rightarrow> real list option" where
  "nums [] = Some []"
| "nums (Num r # xs) = (case nums xs of None \<Rightarrow> None | Some rs \<Rightarrow> Some (r # rs))"
| "nums (NonNum # xs) = None"

definition np_argmax :: "elem list \<Rightarrow> py_error + nat" where
  "np_argmax xs =
     (case xs of
        [] \<Rightarrow> Inl ValueError
      | [x] \<Rightarrow> Inr 0
      | _ \<Rightarrow> (case nums xs of
                None \<Rightarrow> Inl TypeError
              | Some [] \<Rightarrow> Inl ValueError
              | Some (r # rs) \<Rightarrow> Inr (argmax_from r 0 1 rs)))"

text \<open>
  One iteration of a \<open>for\<close> loop over candidates either raises (\<open>Inl\<close>), takes
  \<open>continue\<close> (\<open>Inr None\<close>) or appends a detection (\<open>Inr (Some d)\<close>). The loop
  stops at the first raise; the list \<open>detections\<close> keeps what was appended before.
\<close>

fun for_rows ::
  "('r \<Rightarrow> py_error + detection option) \<Rightarrow> 'r list \<Rightarrow> detection list
     \<Rightarrow> py_error option \<times> detection list" where
  "for_rows body [] detections = (None, detections)"
| "for_rows body (r # rs) detections =
     (case body r of
        Inl e \<Rightarrow> (Some e, detections)
      | Inr None \<Rightarrow> for_rows body rs detections
      | Inr (Some d) \<Rightarrow> for_rows body rs (detections @ [d]))"

text \<open>
  The corners of a box given by centre and size, divided by the model's input size:
  \<open>max(0, (x_center - width / 2) / self.input_size)\<close> and its three siblings. The
  arithmetic raises TypeError on a non-number.
\<close>

definition num4 :: "elem \<Rightarrow> elem \<Rightarrow> elem \<Rightarrow> elem \<Rightarrow> py_error + (real \<times> real \<times> real \<times> real)" where
  "num4 a b c d =
     and_then (py_float a) (\<lambda>x.
     and_then (py_float b) (\<lambda>y.
     and_then (py_float c) (\<lambda>w.
     and_then (py_float d) (\<lambda>h. Inr (x, y, w, h)))))"

definition yolo_box ::
  "int \<Rightarrow> elem \<Rightarrow> elem \<Rightarrow> elem \<Rightarrow> elem \<Rightarrow> py_error + (real \<times> real \<times> real \<times> real)" where
  "yolo_box input_size x_center y_center width height =
     (case num4 x_center y_center width height of
        Inl e \<Rightarrow> Inl e
      | Inr (xc, yc, w, h) \<Rightarrow>
          Inr (max 0 ((xc - w / 2) / of_int input_size),
               max 0 ((yc - h / 2) / of_int input_size),
               min 1 ((xc + w / 2) / of_int input_size),
               min 1 ((yc + h / 2) / of_int input_size)))"

text \<open>
  \<open>class_id\<close> and \<open>class_score\<close> of a candidate (lines 166 to 171): the first maximum of
  the class scores, or class 0 with score 1.0 when there are none.
\<close>

definition yolo_class :: "elem list \<Rightarrow> py_error + (nat \<times> real)" where
  "yolo_class class_scores =
     (if class_scores = [] then Inr (0, 1)
      else
        and_then (np_argmax class_scores) (\<lambda>class_id.
        and_then (item class_scores class_id) (\<lambda>x.
        and_then (py_float x) (\<lambda>class_score. Inr (class_id, class_score)))))"

text \<open>
  A candidate that passed both threshold tests (lines 176 to 194): its box, its label and
  its score.
\<close>

definition yolo_keep ::
  "int \<Rightarrow> elem \<Rightarrow> elem \<Rightarrow> elem \<Rightarrow> elem \<Rightarrow> real \<Rightarrow> nat \<Rightarrow> real
     \<Rightarrow> py_error + detection option" where
  "yolo_keep input_size x_center y_center width height confidence class_id class_score =
     (case yolo_box input_size x_center y_center width height of
        Inl e \<Rightarrow> Inl e
      | Inr (x0, y0, x1, y1) \<Rightarrow>
          (case label_of (int class_id) of
             Inl e \<Rightarrow> Inl e
           | Inr l \<Rightarrow>
               Inr (Some \<lparr>label = l, score = confidence * class_score,
                 xmin = x0, ymin = y0, xmax = x1, ymax = y1\<rparr>)))"

text \<open>
  The body of the loop of the YOLO branch (lines 159 to 194). Unpacking \<open>pred[:4]\<close> into
  four names raises ValueError on fewer than four elements, \<open>pred[4]\<close> raises IndexError
  on exactly four.
\<close>

definition yolo_scored ::
  "int \<Rightarrow> real \<Rightarrow> elem \<Rightarrow> elem \<Rightarrow> elem \<Rightarrow> elem \<Rightarrow> elem \<Rightarrow> elem list
     \<Rightarrow> py_error + detection option" where
  "yolo_scored input_size conf_threshold x_center y_center width height c class_scores =
     (case py_float c of
        Inl e \<Rightarrow> Inl e
      | Inr confidence \<Rightarrow>
          if confidence \<le> conf_threshold then Inr None
          else
            (case yolo_class class_scores of
               Inl e \<Rightarrow> Inl e
             | Inr (class_id, class_score) \<Rightarrow>
                 if class_score \<le> conf_threshold then Inr None
                 else yolo_keep input_size x_center y_center width height
                        confidence class_id class_score))"

fun yolo_row :: "int \<Rightarrow> real \<Rightarrow> elem list \<Rightarrow> py_error + detection option" where
  "yolo_row input_size conf_threshold (x_center # y_center # width # height # c # class_scores) =
     yolo_scored input_size conf_threshold x_center y_center width height c class_scores"
| "yolo_row input_size conf_threshold [x_center, y_center, width, height] = Inl IndexError"
| "yolo_row input_size conf_threshold pred = Inl ValueError"

text \<open>
  The body of the loop of the SSD branch (lines 206 to 232). The six conversions are inside
  an inner \<open>try\<close> whose handler is \<open>continue\<close>; the label lookup is outside it.
\<close>

definition ssd_fields :: "elem list \<Rightarrow> py_error + (int \<times> real \<times> real \<times> real \<times> real \<times> real)" where
  "ssd_fields row =
     and_then (and_then (item row 1) py_int) (\<lambda>class_id.
     and_then (and_then (item row 2) py_float) (\<lambda>sc.
     and_then (and_then (item row 3) py_float) (\<lambda>x0.
     and_then (and_then (item row 4) py_float) (\<lambda>y0.
     and_then (and_then (item row 5) py_float) (\<lambda>x1.
     and_then (and_then (item row 6) py_float) (\<lambda>y1.
       Inr (class_id, sc, x0, y0, x1, y1)))))))"

definition ssd_row :: "real \<Rightarrow> elem list \<Rightarrow> py_error + detection option" where
  "ssd_row conf_threshold row =
     (case ssd_fields row of
        Inl e \<Rightarrow> Inr None
      | Inr (class_id, sc, x0, y0, x1, y1) \<Rightarrow>
          if sc \<le> conf_threshold then Inr None
          else
            (case label_of class_id of
               Inl e \<Rightarrow> Inl e
             | Inr l \<Rightarrow>
                 Inr (Some \<lparr>label = l, score = sc, xmin = x0, ymin = y0, xmax = x1, ymax = y1\<rparr>)))"

text \<open>
  The body of the loop of the flat fallback (lines 240 to 266), on the six elements
  \<open>flat[off] .. flat[off + 5]\<close>. All six are converted before the threshold is tested.
\<close>

definition flat_keep ::
  "real \<Rightarrow> real \<Rightarrow> real \<Rightarrow> real \<Rightarrow> real \<Rightarrow> real \<Rightarrow> int \<Rightarrow> py_error + detection option" where
  "flat_keep conf_threshold x y w h conf cls =
     (if conf \<le> conf_threshold then Inr None
      else
        and_then (label_of cls) (\<lambda>l.
          Inr (Some \<lparr>label = l, score = conf,
            xmin = max 0 (x - w / 2), ymin = max 0 (y - h / 2),
            xmax = min 1 (x + w / 2), ymax = min 1 (y + h / 2)\<rparr>)))"

definition flat_row :: "real \<Rightarrow> elem list \<Rightarrow> py_error + detection option" where
  "flat_row conf_threshold rec =
     and_then (and_then (item rec 0) py_float) (\<lambda>x.
     and_then (and_then (item rec 1) py_float) (\<lambda>y.
     and_then (and_then (item rec 2) py_float) (\<lambda>w.
     and_then (and_then (item rec 3) py_float) (\<lambda>h.
     and_then (and_then (item rec 4) py_float) (\<lambda>conf.
     and_then (and_then (item rec 5) py_int) (\<lambda>cls.
       flat_keep conf_threshold x y w h conf cls))))))"

text \<open>The three shape tests, in the order of the source.\<close>

definition yolo_shape :: "ndarray \<Rightarrow> bool" where
  "yolo_shape out0 \<longleftrightarrow> ndim out0 = 3 \<and> 6 \<le> shape out0 ! 2"

definition ssd_shape :: "ndarray \<Rightarrow> bool" where
  "ssd_shape out0 \<longleftrightarrow> ndim out0 = 4 \<and> shape out0 ! 2 = 1 \<and> 7 \<le> shape out0 ! 3"

text \<open>
  The body of the outer \<open>try\<close>: the exception that left it, if any, and the list
  \<open>detections\<close> at that moment. \<open>outputs[0]\<close>, \<open>out0[0]\<close> and \<open>out0[0][0]\<close> raise
  IndexError on an empty axis.
\<close>

definition postprocess_try ::
  "int \<Rightarrow> ndarray list \<Rightarrow> real \<Rightarrow> py_error option \<times> detection list" where
  "postprocess_try input_size outputs conf_threshold =
     (case outputs of
        [] \<Rightarrow> (Some IndexError, [])
      | out0 # _ \<Rightarrow>
          if yolo_shape out0 then
            (if shape out0 ! 0 = 0 then (Some IndexError, [])
             else for_rows (yolo_row input_size conf_threshold)
                    (rows (shape out0 ! 1) (shape out0 ! 2) (data out0)) [])
          else if ssd_shape out0 then
            (if shape out0 ! 0 = 0 \<or> shape out0 ! 1 = 0 then (Some IndexError, [])
             else for_rows (ssd_row conf_threshold)
                    (rows (shape out0 ! 2) (shape out0 ! 3) (data out0)) [])
          else if length (data out0) mod 6 = 0 then
            for_rows (flat_row conf_threshold) (rows (length (data out0) div 6) 6 (data out0)) []
          else (None, []))"

text \<open>
  \<open>postprocess\<close>: the handler of the outer \<open>try\<close> logs the exception, and the function
  returns \<open>detections\<close> on every path.
\<close>

definition postprocess :: "int \<Rightarrow> ndarray list \<Rightarrow> real \<Rightarrow> detection list" where
  "postprocess input_size outputs conf_threshold =
     snd (postprocess_try input_size outputs conf_threshold)"

section \<open>Frame pipeline: \<open>VideoProcessor\<close> and \<open>process_video_track\<close>\<close>

text \<open>
  The world outside the program, as the code meets it.
  \<^item> \<open>clock n k\<close> is \<open>int(time.time() * 1000)\<close> at the \<open>k\<close>-th reading of the clock
    in the iteration that handles the \<open>n\<close>-th frame of the track: reading 0 is
    \<open>capture_ts\<close> (line 453), 1 is \<open>recv_ts\<close> (line 306), 2 and 3 are the two readings
    inside \<open>detect\<close>, 4 is \<open>inference_ts\<close> (line 311).
  \<^item> \<open>preprocess\<close> (three calls into cv2 and numpy) and \<open>session_run\<close> (the ONNX
    session) return or raise.
  \<^item> \<open>send_ok n\<close> tells whether \<open>websocket.send\<close> succeeds in the iteration of the
    \<open>n\<close>-th frame; otherwise it raises ConnectionClosed.
\<close>

record env =
  clock :: "nat \<Rightarrow> nat \<Rightarrow> int"
  preprocess :: "ndarray \<Rightarrow> py_error + ndarray"
  session_run :: "ndarray \<Rightarrow> py_error + ndarray list"
  input_size :: int
  send_ok :: "nat \<Rightarrow> bool"

text \<open>
  A frame as \<open>track.recv()\<close> returns it: the timing its producer attached to it, and
  what \<open>frame.to_ndarray(format="bgr24")\<close> gives (the pixels, or an exception for a
  malformed frame).
\<close>

record video_frame =
  pts :: int
  to_ndarray :: "py_error + ndarray"

datatype recv = Frame video_frame | Raised py_error

text \<open>The payload of a \<open>detection_result\<close> message; \<open>frame_id\<close> is \<open>str(frame_count)\<close>.\<close>

record result =
  frame_id :: nat
  capture_ts :: int
  recv_ts :: int
  inference_ts :: int
  detections :: "detection list"

text \<open>\<open>VideoProcessor.__init__\<close>: the queue is created empty, with \<open>maxsize=5\<close>.\<close>

record video_processor =
  frame_queue :: "ndarray list"
  maxsize :: nat
  processing :: bool

definition VideoProcessor_init :: video_processor where
  "VideoProcessor_init = \<lparr>frame_queue = [], maxsize = 5, processing = False\<rparr>"

text \<open>\<open>ObjectDetector.detect\<close>: preprocess, run the session, postprocess at the default threshold.\<close>

definition detect :: "env \<Rightarrow> ndarray \<Rightarrow> py_error + detection list" where
  "detect env frame =
     and_then (preprocess env frame) (\<lambda>input_tensor.
     and_then (session_run env input_tensor) (\<lambda>outputs.
       Inr (postprocess (input_size env) outputs (1 / 2))))"

text \<open>\<open>VideoProcessor.process_frame\<close>, called in the iteration of the \<open>n\<close>-th frame.\<close>

definition process_frame :: "env \<Rightarrow> nat \<Rightarrow> ndarray \<Rightarrow> nat \<Rightarrow> int \<Rightarrow> py_error + result" where
  "process_frame env n frame fid cts =
     (let recv = clock env n 1 in
      and_then (detect env frame) (\<lambda>ds.
        Inr \<lparr>frame_id = fid, capture_ts = cts, recv_ts = recv,
             inference_ts = clock env n 4, detections = ds\<rparr>))"

text \<open>
  The state of \<open>process_video_track\<close>: its counter, the processor it calls, the
  \<open>detection_result\<close> payloads it has sent, the exceptions it has logged, and whether
  the \<open>while True\<close> loop is still running (\<open>break\<close> leaves it).
\<close>

record track_state =
  frame_count :: nat
  processor :: video_processor
  sent :: "result list"
  logged :: "py_error list"
  looping :: bool

definition track_start :: "video_processor \<Rightarrow> track_state" where
  "track_start p = \<lparr>frame_count = 0, processor = p, sent = [], logged = [], looping = True\<rparr>"

text \<open>
  The selected frame (lines 452 to 463): take the server's clock as \<open>capture_ts\<close>, call
  \<open>process_frame\<close>, send the result.
\<close>

definition selected :: "env \<Rightarrow> track_state \<Rightarrow> ndarray \<Rightarrow> py_error option \<times> track_state" where
  "selected env s img =
     (let n = frame_count s; cts = clock env n 0 in
      case process_frame env n img n cts of
        Inl e \<Rightarrow> (Some e, s)
      | Inr r \<Rightarrow>
          if send_ok env n then (None, s\<lparr>sent := sent s @ [r]\<rparr>)
          else (Some ConnectionClosed, s))"

text \<open>
  The body of the \<open>try\<close> in the loop (lines 442 to 463): the exception that left it, if
  any, and the state at that moment. The counter is incremented before the frame is
  converted, and every frame is converted, selected or not.
\<close>

definition track_try :: "env \<Rightarrow> track_state \<Rightarrow> recv \<Rightarrow> py_error option \<times> track_state" where
  "track_try env s ev =
     (case ev of
        Raised e \<Rightarrow> (Some e, s)
      | Frame frame \<Rightarrow>
          (let s1 = s\<lparr>frame_count := frame_count s + 1\<rparr> in
           case to_ndarray frame of
             Inl e \<Rightarrow> (Some e, s1)
           | Inr img \<Rightarrow>
               if frame_count s1 mod 2 = 0 then selected env s1 img else (None, s1)))"

text \<open>One iteration: the handler (lines 465 to 467) logs the exception and breaks.\<close>

definition track_step :: "env \<Rightarrow> track_state \<Rightarrow> recv \<Rightarrow> track_state" where
  "track_step env s ev =
     (case track_try env s ev of
        (None, s') \<Rightarrow> s'
      | (Some e, s') \<Rightarrow> s'\<lparr>logged := logged s' @ [e], looping := False\<rparr>)"

text \<open>
  \<open>process_video_track\<close> on the outcomes of the successive \<open>track.recv()\<close> calls. When
  the list is used up the loop is still waiting for the next frame (\<open>looping\<close> holds).
\<close>

fun process_video_track :: "env \<Rightarrow> track_state \<Rightarrow> recv list \<Rightarrow> track_state" where
  "process_video_track env s [] = s"
| "process_video_track env s (ev # evs) =
     (let s' = track_step env s ev in
      if looping s' then process_video_track env s' evs else s')"

text \<open>
  An iteration that runs through without an exception: the \<open>k\<close>-th frame arrives, is
  converted, and, when \<open>k\<close> is even, is detected and its result sent.
\<close>

definition frame_ok :: "env \<Rightarrow> nat \<Rightarrow> recv \<Rightarrow> bool" where
  "frame_ok env k ev =
     (case ev of
        Raised e \<Rightarrow> False
      | Frame frame \<Rightarrow>
          (case to_ndarray frame of
             Inl e \<Rightarrow> False
           | Inr img \<Rightarrow>
               if k mod 2 = 0
               then (case detect env img of Inl e \<Rightarrow> False | Inr ds \<Rightarrow> send_ok env k)
               else True))"

fun frames_ok :: "env \<Rightarrow> nat \<Rightarrow> recv list \<Rightarrow> bool" where
  "frames_ok env k [] = True"
| "frames_ok env k (ev # evs) = (frame_ok env (Suc k) ev \<and> frames_ok env (Suc k) evs)"

text \<open>The same arrival with another timing attached by the producer.\<close>

fun retime :: "(int \<Rightarrow> int) \<Rightarrow> recv \<Rightarrow> recv" where
  "retime g (Frame frame) = Frame (frame\<lparr>pts := g (pts frame)\<rparr>)"
| "retime g (Raised e) = Raised e"

section \<open>Signaling: \<open>WebRTCServer\<close>\<close>

text \<open>
  Peer connections are numbered in the order of their creation. The server's two
  dictionaries are keyed by \<open>id(websocket)\<close>. \<open>handles\<close> records every
  \<open>RTCPeerConnection()\<close> created, with the connection whose offer created it, and
  \<open>closed_pcs\<close> those on which \<open>close()\<close> was called; \<open>answers\<close> are the connections
  an answer was sent to.
\<close>

record server =
  peer_connections :: "nat \<rightharpoonup> nat"
  websocket_connections :: "nat list"
  handles :: "(nat \<times> nat) list"
  closed_pcs :: "nat list"
  answers :: "nat list"

definition WebRTCServer_init :: server where
  "WebRTCServer_init = \<lparr>peer_connections = Map.empty, websocket_connections = [],
     handles = [], closed_pcs = [], answers = []\<rparr>"

text \<open>
  A decoded signaling message. The flag tells whether the calls into aiortc that the
  handler awaits succeed (a malformed SDP or candidate makes them raise). \<open>Garbled\<close> is
  a message on which \<open>json.loads\<close> raises.
\<close>

datatype signal = Offer bool | Answer bool | IceCandidate bool | StartReceiving | Unknown | Garbled

text \<open>
  \<open>handle_offer\<close>: a new peer connection is created and stored under the connection's
  key before the offer is applied.
\<close>

definition handle_offer :: "server \<Rightarrow> nat \<Rightarrow> bool \<Rightarrow> py_error option \<times> server" where
  "handle_offer s connection_id accepted =
     (let pc = length (handles s);
          s1 = s\<lparr>handles := handles s @ [(pc, connection_id)],
                 peer_connections := (peer_connections s)(connection_id \<mapsto> pc)\<rparr>
      in if accepted then (None, s1\<lparr>answers := answers s1 @ [connection_id]\<rparr>)
         else (Some InvalidStateError, s1))"

definition handle_answer :: "server \<Rightarrow> nat \<Rightarrow> bool \<Rightarrow> py_error option \<times> server" where
  "handle_answer s connection_id accepted =
     (case peer_connections s connection_id of
        None \<Rightarrow> (None, s)
      | Some pc \<Rightarrow> if accepted then (None, s) else (Some InvalidStateError, s))"

definition handle_ice_candidate :: "server \<Rightarrow> nat \<Rightarrow> bool \<Rightarrow> py_error option \<times> server" where
  "handle_ice_candidate s connection_id accepted =
     (case peer_connections s connection_id of
        None \<Rightarrow> (None, s)
      | Some pc \<Rightarrow> if accepted then (None, s) else (Some InvalidStateError, s))"

text \<open>\<open>handle_message\<close> after \<open>json.loads\<close>; an unknown type matches no branch.\<close>

fun handle_message :: "server \<Rightarrow> nat \<Rightarrow> signal \<Rightarrow> py_error option \<times> server" where
  "handle_message s c (Offer b) = handle_offer s c b"
| "handle_message s c (Answer b) = handle_answer s c b"
| "handle_message s c (IceCandidate b) = handle_ice_candidate s c b"
| "handle_message s c StartReceiving = (None, s)"
| "handle_message s c Unknown = (None, s)"
| "handle_message s c Garbled = (Some ValueError, s)"

text \<open>The \<open>async for\<close> loop of \<open>handle_websocket\<close>: it ends at the first exception.\<close>

fun handle_messages :: "server \<Rightarrow> nat \<Rightarrow> signal list \<Rightarrow> py_error option \<times> server" where
  "handle_messages s c [] = (None, s)"
| "handle_messages s c (m # ms) =
     (case handle_message s c m of
        (Some e, s') \<Rightarrow> (Some e, s')
      | (None, s') \<Rightarrow> handle_messages s' c ms)"

text \<open>
  The \<open>finally\<close> block of \<open>handle_websocket\<close>: the connection's entries are deleted, and
  the peer connection stored under its key is closed.
\<close>

definition cleanup :: "server \<Rightarrow> nat \<Rightarrow> server" where
  "cleanup s connection_id =
     (let s1 = s\<lparr>websocket_connections := removeAll connection_id (websocket_connections s)\<rparr>
      in case peer_connections s1 connection_id of
           None \<Rightarrow> s1
         | Some pc \<Rightarrow>
             s1\<lparr>closed_pcs := closed_pcs s1 @ [pc],
                peer_connections := (peer_connections s1)(connection_id := None)\<rparr>)"

text \<open>
  \<open>handle_websocket\<close> for a connection that delivers the given messages and then closes.
  The exception returned is the one that leaves the function (ConnectionClosed is caught).
\<close>

definition handle_websocket :: "server \<Rightarrow> nat \<Rightarrow> signal list \<Rightarrow> py_error option \<times> server" where
  "handle_websocket s connection_id messages =
     (let s0 = s\<lparr>websocket_connections := websocket_connections s @ [connection_id]\<rparr>
      in case handle_messages s0 connection_id messages of
           (err, s') \<Rightarrow>
             (if err = Some ConnectionClosed then None else err, cleanup s' connection_id))"

text \<open>The peer connections created for a connection and not closed.\<close>

definition active_pcs :: "server \<Rightarrow> nat \<Rightarrow> nat list" where
  "active_pcs s connection_id =
     filter (\<lambda>pc. pc \<notin> set (closed_pcs s))
       (map fst (filter (\<lambda>h. snd h = connection_id) (handles s)))"

section \<open>Inputs used in the examples\<close>

text \<open>A frame whose single pixel is \<open>v\<close>, a malformed frame, and a world in which the
  clock reads \<open>1000 * n + k\<close>, the model finds nothing and every send succeeds.\<close>

definition pixel :: "real \<Rightarrow> ndarray" where
  "pixel v = \<lparr>shape = [1], data = [Num v]\<rparr>"

definition good_frame :: "int \<Rightarrow> recv" where
  "good_frame t = Frame \<lparr>pts = t, to_ndarray = Inr (pixel 0)\<rparr>"

definition bad_frame :: recv where
  "bad_frame = Frame \<lparr>pts = 0, to_ndarray = Inl ValueError\<rparr>"

definition quiet_env :: env where
  "quiet_env = \<lparr>clock = (\<lambda>n k. 1000 * int n + int k), preprocess = Inr,
     session_run = (\<lambda>t. Inr []), input_size = 320, send_ok = (\<lambda>n. True)\<rparr>"

text \<open>The tensor of shape (1, 3, 6) whose three rows are \<open>[0.5, 0.5, 0.2, 0.2, 0.9, 0.9]\<close>.\<close>

definition scenario1 :: ndarray where
  "scenario1 = \<lparr>shape = [1, 3, 6], data = map Num
     [0.5, 0.5, 0.2, 0.2, 0.9, 0.9,  0.5, 0.5, 0.2, 0.2, 0.9, 0.9,  0.5, 0.5, 0.2, 0.2, 0.9, 0.9]\<rparr>"

section \<open>Properties of the detection normalizer\<close>

text \<open>The definitions a concrete run of \<open>postprocess\<close> unfolds.\<close>

lemmas eval_defs = postprocess_def postprocess_try_def yolo_shape_def ssd_shape_def ndim_def rows_def
  yolo_scored_def yolo_class_def yolo_keep_def yolo_box_def num4_def and_then_def item_def
  np_argmax_def py_float_def py_int_def label_of_def class_names_def ssd_row_def ssd_fields_def
  flat_row_def flat_keep_def

subsection \<open>The loops\<close>






subsection \<open>What a kept candidate satisfies\<close>












subsection \<open>Scores and the threshold\<close>




subsection \<open>Bounding boxes\<close>




subsection \<open>The first end-to-end scenario\<close>

text \<open>
  Claim C5 expects one detection with box (0.4, 0.4, 0.6, 0.6). Each of the three rows
  passes both tests, so three detections are returned, and the corners are divided by the
  input size: at the default 320 the box is (1/800, 1/800, 3/1600, 3/1600).
\<close>

theorem scenario1_three_detections:
  "postprocess 320 [scenario1] (1/2) =
     [\<lparr>label = ''person'', score = 81/100, xmin = 1/800, ymin = 1/800, xmax = 3/1600, ymax = 3/1600\<rparr>,
      \<lparr>label = ''person'', score = 81/100, xmin = 1/800, ymin = 1/800, xmax = 3/1600, ymax = 3/1600\<rparr>,
      \<lparr>label = ''person'', score = 81/100, xmin = 1/800, ymin = 1/800, xmax = 3/1600, ymax = 3/1600\<rparr>]
   \<and> length (postprocess 1 [scenario1] (1/2)) = 3"
  by (simp add: scenario1_def eval_defs upt_rec)

text \<open>
  C5, as the code has it: for an input size of at least 1 the result is three equal
  detections, with label \<open>person\<close> (index 0), score 0.81 and box
  (0.4, 0.4, 0.6, 0.6) divided by the input size.
\<close>

theorem scenario1_result:
  assumes "1 \<le> isz"
  shows "postprocess isz [scenario1] (1/2) =
     replicate 3 \<lparr>label = ''person'', score = 81/100,
       xmin = 2 / (5 * of_int isz), ymin = 2 / (5 * of_int isz),
       xmax = 3 / (5 * of_int isz), ymax = 3 / (5 * of_int isz)\<rparr>"
proof -
  from assms have r: "(1 :: real) \<le> of_int isz" by simp
  then have a: "max 0 (2 / (5 * real_of_int isz)) = 2 / (5 * real_of_int isz)"
    by (simp add: max_def)
  from r have "3 / (5 * real_of_int isz) \<le> 1" by (simp add: divide_le_eq)
  then have b: "min 1 (3 / (5 * real_of_int isz)) = 3 / (5 * real_of_int isz)"
    by (simp add: min_def)
  show ?thesis
    by (simp add: scenario1_def eval_defs upt_rec numeral_3_eq_3 a b)
qed

text \<open>The theorem at the default input size.\<close>

theorem scenario1_result_witness:
  "(1 :: int) \<le> 320 \<and> postprocess 320 [scenario1] (1/2) =
     replicate 3 \<lparr>label = ''person'', score = 81/100,
       xmin = 1/800, ymin = 1/800, xmax = 3/1600, ymax = 3/1600\<rparr>"
  using scenario1_result[of 320] by simp

subsection \<open>Labels of class indices outside the vocabulary\<close>

text \<open>
  Claim C8: every class index outside \<open>0 .. 79\<close> is labelled \<open>unknown\<close>. The guard
  \<open>class_id < len(self.class_names)\<close> has no lower bound. In the SSD branch and in the flat
  fallback the index is read from the tensor: \<open>-1\<close> is labelled \<open>toothbrush\<close> and \<open>-80\<close>
  is labelled \<open>person\<close> (indexing from the end), \<open>-81\<close> raises IndexError, which ends the
  scan; 80 is labelled \<open>unknown\<close>.
\<close>

theorem negative_class_index:
  "map label (postprocess 320 [\<lparr>shape = [1, 1, 1, 7], data = map Num [0, -1, 0.9, 0.1, 0.1, 0.5, 0.5]\<rparr>] (1/2)) = [''toothbrush'']
   \<and> map label (postprocess 320 [\<lparr>shape = [6], data = map Num [0.5, 0.5, 0.2, 0.2, 0.9, -80]\<rparr>] (1/2)) = [''person'']
   \<and> postprocess_try 320 [\<lparr>shape = [1, 1, 1, 7], data = map Num [0, -81, 0.9, 0.1, 0.1, 0.5, 0.5]\<rparr>] (1/2) = (Some IndexError, [])
   \<and> map label (postprocess 320 [\<lparr>shape = [1, 1, 1, 7], data = map Num [0, 80, 0.9, 0.1, 0.1, 0.5, 0.5]\<rparr>] (1/2)) = [''unknown'']"
  by (simp add: eval_defs upt_rec)

subsection \<open>Exceptions inside \<open>postprocess\<close>\<close>



section \<open>Properties of the frame pipeline\<close>

text \<open>The definitions a concrete run of \<open>process_video_track\<close> unfolds.\<close>

lemmas track_defs = track_step_def track_try_def selected_def process_frame_def detect_def
  and_then_def track_start_def VideoProcessor_init_def good_frame_def bad_frame_def
  quiet_env_def pixel_def postprocess_def postprocess_try_def

subsection \<open>The queue of the processor\<close>

lemma track_try_processor: "processor (snd (track_try env s ev)) = processor s"
  by (auto simp: track_try_def selected_def Let_def split: recv.splits sum.splits)

lemma track_step_processor: "processor (track_step env s ev) = processor s"
  using track_try_processor[of env s ev]
  by (auto simp: track_step_def split: prod.splits option.splits)

lemma process_video_track_processor: "processor (process_video_track env s evs) = processor s"
  by (induction evs arbitrary: s) (simp_all add: Let_def track_step_processor)

text \<open>
  Claim C2 places a buffer of capacity 5 between arrival and processing, which evicts its
  oldest frame when a frame arrives while it is full. The second frame of a track is
  selected and its result is sent while the queue stays empty; and were the queue full,
  the arrival of a selected frame would leave its five entries as they are.
\<close>

theorem selected_frame_bypasses_queue:
  "map frame_id (sent (process_video_track quiet_env (track_start VideoProcessor_init)
      [good_frame 1, good_frame 2])) = [2]
   \<and> frame_queue (processor (process_video_track quiet_env (track_start VideoProcessor_init)
      [good_frame 1, good_frame 2])) = []
   \<and> frame_queue (processor (process_video_track quiet_env
        (track_start \<lparr>frame_queue = [pixel 1, pixel 2, pixel 3, pixel 4, pixel 5], maxsize = 5,
           processing = False\<rparr>)
        [good_frame 1, good_frame 2]))
     = [pixel 1, pixel 2, pixel 3, pixel 4, pixel 5]"
  by (simp add: track_defs)

text \<open>
  C2, as the code has it: the queue is created empty with \<open>maxsize=5\<close>, and
  \<open>process_video_track\<close> leaves the processor, and so the queue, as it found it: it holds
  no frame at any time, which is within its capacity; nothing is put into it and nothing
  is evicted from it. A selected frame goes to \<open>process_frame\<close> directly.
\<close>

theorem frame_queue_never_used:
  "processor (process_video_track env s evs) = processor s
   \<and> frame_queue (processor (process_video_track env (track_start VideoProcessor_init) evs)) = []
   \<and> length (frame_queue (processor (process_video_track env (track_start VideoProcessor_init) evs)))
       \<le> maxsize VideoProcessor_init
   \<and> maxsize VideoProcessor_init = 5"
  by (simp add: process_video_track_processor track_start_def VideoProcessor_init_def)

subsection \<open>A frame whose processing raises\<close>

lemma track_try_raises:
  assumes "track_try env s ev = (Some e, s')"
  shows "sent s' = sent s"
  using assms
  by (auto simp: track_try_def selected_def Let_def split: recv.splits sum.splits if_splits)

lemma process_video_track_append:
  assumes "looping s"
  shows "process_video_track env s (xs @ ys) =
     (let s' = process_video_track env s xs in
      if looping s' then process_video_track env s' ys else s')"
  using assms by (induction xs arbitrary: s) (simp_all add: Let_def)

text \<open>
  Claim C1 says that after a frame whose processing raises the loop goes on with the later
  frames. Of four frames, the second and the fourth are selected. When the second one is
  malformed, or when the model raises on it, the handler logs the exception and breaks:
  the third and the fourth frame are never received, and no result is sent.
\<close>

theorem frame_failure_stops_track:
  "map frame_id (sent (process_video_track quiet_env (track_start VideoProcessor_init)
      [good_frame 1, good_frame 2, good_frame 3, good_frame 4])) = [2, 4]
   \<and> process_video_track quiet_env (track_start VideoProcessor_init)
      [good_frame 1, bad_frame, good_frame 3, good_frame 4]
     = \<lparr>frame_count = 2, processor = VideoProcessor_init, sent = [], logged = [ValueError],
        looping = False\<rparr>
   \<and> process_video_track (quiet_env\<lparr>session_run := (\<lambda>t. Inl RuntimeError)\<rparr>)
        (track_start VideoProcessor_init)
        [good_frame 1, good_frame 2, good_frame 3, good_frame 4]
     = \<lparr>frame_count = 2, processor = VideoProcessor_init, sent = [], logged = [RuntimeError],
        looping = False\<rparr>"
  by (simp add: track_defs)

text \<open>
  C1, as the code has it: when an iteration raises, at whatever stage (receiving,
  converting, detecting or sending), the exception is caught and logged, no result is
  sent for that frame, and the loop ends there: the state \<open>process_video_track\<close> returns
  is the one of that moment, whatever frames come later. The exception does not leave
  \<open>process_video_track\<close>.
\<close>

theorem frame_failure_ends_loop:
  assumes "looping s"
    and "process_video_track env s before = s1" and "looping s1"
    and "track_try env s1 ev = (Some e, s2)"
  shows "process_video_track env s (before @ ev # later) = s2\<lparr>logged := logged s2 @ [e], looping := False\<rparr>
       \<and> sent s2 = sent s1"
proof -
  from assms(4) have step: "track_step env s1 ev = s2\<lparr>logged := logged s2 @ [e], looping := False\<rparr>"
    by (simp add: track_step_def)
  from assms(1-3) step have "process_video_track env s (before @ ev # later)
      = s2\<lparr>logged := logged s2 @ [e], looping := False\<rparr>"
    by (simp add: process_video_track_append Let_def)
  with track_try_raises[OF assms(4)] show ?thesis by simp
qed

text \<open>The theorem at a track whose third frame is malformed.\<close>

theorem frame_failure_ends_loop_witness:
  "process_video_track quiet_env (track_start VideoProcessor_init)
      ([good_frame 1, good_frame 2] @ bad_frame # [good_frame 4, good_frame 5, good_frame 6])
     = \<lparr>frame_count = 3, processor = VideoProcessor_init,
        sent = [\<lparr>frame_id = 2, capture_ts = 2000, recv_ts = 2001, inference_ts = 2004,
                 detections = []\<rparr>],
        logged = [ValueError], looping = False\<rparr>"
proof -
  let ?s0 = "track_start VideoProcessor_init"
  let ?r = "\<lparr>frame_id = 2, capture_ts = 2000, recv_ts = 2001, inference_ts = 2004,
                 detections = []\<rparr>"
  let ?s1 = "\<lparr>frame_count = 2, processor = VideoProcessor_init, sent = [?r], logged = [],
        looping = True\<rparr>"
  let ?s2 = "\<lparr>frame_count = 3, processor = VideoProcessor_init, sent = [?r], logged = [],
        looping = True\<rparr>"
  have a: "looping ?s0" by (simp add: track_start_def)
  have b: "process_video_track quiet_env ?s0 [good_frame 1, good_frame 2] = ?s1"
    by (simp add: track_defs)
  have c: "looping ?s1" by simp
  have d: "track_try quiet_env ?s1 bad_frame = (Some ValueError, ?s2)"
    by (simp add: track_defs)
  from frame_failure_ends_loop[OF a b c d, of "[good_frame 4, good_frame 5, good_frame 6]"]
  show ?thesis by simp
qed

subsection \<open>The capture timestamp\<close>

lemma selected_stamp:
  assumes "\<forall>r\<in>set (sent s). capture_ts r = clock env (frame_id r) 0 \<and> recv_ts r = clock env (frame_id r) 1"
  shows "\<forall>r\<in>set (sent (snd (selected env s img))).
           capture_ts r = clock env (frame_id r) 0 \<and> recv_ts r = clock env (frame_id r) 1"
  using assms
  by (auto simp: selected_def process_frame_def and_then_def Let_def split: sum.splits)

lemma track_try_stamp:
  assumes "\<forall>r\<in>set (sent s). capture_ts r = clock env (frame_id r) 0 \<and> recv_ts r = clock env (frame_id r) 1"
  shows "\<forall>r\<in>set (sent (snd (track_try env s ev))).
           capture_ts r = clock env (frame_id r) 0 \<and> recv_ts r = clock env (frame_id r) 1"
proof (cases ev)
  case (Raised e)
  with assms show ?thesis by (simp add: track_try_def)
next
  case (Frame frame)
  show ?thesis
  proof (cases "to_ndarray frame")
    case (Inl e)
    with Frame assms show ?thesis by (simp add: track_try_def)
  next
    case (Inr img)
    from assms have "\<forall>r\<in>set (sent (s\<lparr>frame_count := frame_count s + 1\<rparr>)).
        capture_ts r = clock env (frame_id r) 0 \<and> recv_ts r = clock env (frame_id r) 1"
      by simp
    from selected_stamp[OF this, of img] Frame Inr assms show ?thesis
      by (simp add: track_try_def Let_def)
  qed
qed

lemma track_step_stamp:
  assumes "\<forall>r\<in>set (sent s). capture_ts r = clock env (frame_id r) 0 \<and> recv_ts r = clock env (frame_id r) 1"
  shows "\<forall>r\<in>set (sent (track_step env s ev)).
           capture_ts r = clock env (frame_id r) 0 \<and> recv_ts r = clock env (frame_id r) 1"
  using track_try_stamp[OF assms, of ev]
  by (auto simp: track_step_def split: prod.splits option.splits)

lemma process_video_track_stamp:
  assumes "\<forall>r\<in>set (sent s). capture_ts r = clock env (frame_id r) 0 \<and> recv_ts r = clock env (frame_id r) 1"
  shows "\<forall>r\<in>set (sent (process_video_track env s evs)).
           capture_ts r = clock env (frame_id r) 0 \<and> recv_ts r = clock env (frame_id r) 1"
  using assms
proof (induction evs arbitrary: s)
  case Nil
  then show ?case by simp
next
  case (Cons ev evs)
  from track_step_stamp[OF Cons.prems, of ev] Cons.IH[of "track_step env s ev"]
  show ?case by (simp add: Let_def)
qed

lemma track_try_retime: "track_try env s (retime g ev) = track_try env s ev"
  by (cases ev) (simp_all add: track_try_def)

lemma process_video_track_retime:
  "process_video_track env s (map (retime g) evs) = process_video_track env s evs"
  by (induction evs arbitrary: s) (simp_all add: track_step_def track_try_retime Let_def)

lemma process_frame_capture_ts:
  "process_frame env n img fid cts = Inr r \<Longrightarrow> capture_ts r = cts"
  by (auto simp: process_frame_def and_then_def Let_def split: sum.splits)

text \<open>
  Claim C6 says that \<open>capture_ts\<close> is the capture time supplied by the remote client,
  passed through. The second frame of a track is sent with \<open>capture_ts = 2000\<close>, the
  reading of the server's clock, whether its producer attached the time 7 or 99 to it.
\<close>

theorem capture_ts_ignores_producer_time:
  "map capture_ts (sent (process_video_track quiet_env (track_start VideoProcessor_init)
      [good_frame 5, good_frame 7])) = [2000]
   \<and> map capture_ts (sent (process_video_track quiet_env (track_start VideoProcessor_init)
      [good_frame 5, good_frame 99])) = [2000]
   \<and> good_frame 7 = Frame \<lparr>pts = 7, to_ndarray = Inr (pixel 0)\<rparr>
   \<and> clock quiet_env 2 0 = 2000"
  by (simp add: track_defs)

text \<open>
  C6, as the code has it: the \<open>capture_ts\<close> of every result sent is the reading of the
  server's clock that \<open>process_video_track\<close> takes when it selects the frame, one reading
  before \<open>recv_ts\<close>; the run does not depend on the timing the producer attached to the
  frames; and \<open>process_frame\<close> returns the \<open>capture_ts\<close> it is given.
\<close>

theorem capture_ts_is_server_clock:
  "(\<forall>r\<in>set (sent (process_video_track env (track_start p) evs)).
      capture_ts r = clock env (frame_id r) 0 \<and> recv_ts r = clock env (frame_id r) 1)
   \<and> process_video_track env s (map (retime g) evs) = process_video_track env s evs
   \<and> (process_frame env n img fid cts = Inr res \<longrightarrow> capture_ts res = cts)"
proof -
  have "\<forall>r\<in>set (sent (track_start p)).
      capture_ts r = clock env (frame_id r) 0 \<and> recv_ts r = clock env (frame_id r) 1"
    by (simp add: track_start_def)
  from process_video_track_stamp[OF this, of evs] process_video_track_retime[of env s g evs]
    process_frame_capture_ts[of env n img fid cts res]
  show ?thesis by blast
qed

text \<open>The theorem at a track of two frames.\<close>

theorem capture_ts_is_server_clock_witness:
  "\<lparr>frame_id = 2, capture_ts = 2000, recv_ts = 2001, inference_ts = 2004, detections = []\<rparr>
     \<in> set (sent (process_video_track quiet_env (track_start VideoProcessor_init)
          [good_frame 5, good_frame 7]))
   \<and> clock quiet_env 2 0 = 2000 \<and> clock quiet_env 2 1 = 2001
   \<and> process_video_track quiet_env (track_start VideoProcessor_init)
        (map (retime (\<lambda>t. t + 100)) [good_frame 5, good_frame 7])
     = process_video_track quiet_env (track_start VideoProcessor_init) [good_frame 5, good_frame 7]
   \<and> process_frame quiet_env 2 (pixel 0) 2 42
     = Inr \<lparr>frame_id = 2, capture_ts = 42, recv_ts = 2001, inference_ts = 2004, detections = []\<rparr>"
proof -
  let ?r = "\<lparr>frame_id = 2, capture_ts = 2000, recv_ts = 2001, inference_ts = 2004, detections = []\<rparr>"
  let ?evs = "[good_frame 5, good_frame 7]"
  let ?s0 = "track_start VideoProcessor_init"
  note T = capture_ts_is_server_clock[of quiet_env VideoProcessor_init ?evs ?s0 "\<lambda>t. t + 100"
      2 "pixel 0" 2 42
      "\<lparr>frame_id = 2, capture_ts = 42, recv_ts = 2001, inference_ts = 2004, detections = []\<rparr>"]
  have m: "?r \<in> set (sent (process_video_track quiet_env ?s0 ?evs))"
    by (simp add: track_defs)
  from T[THEN conjunct1, THEN bspec, OF m]
  have c: "clock quiet_env 2 0 = 2000 \<and> clock quiet_env 2 1 = 2001" by simp
  have p: "process_frame quiet_env 2 (pixel 0) 2 42
     = Inr \<lparr>frame_id = 2, capture_ts = 42, recv_ts = 2001, inference_ts = 2004, detections = []\<rparr>"
    by (simp add: track_defs)
  from m c T[THEN conjunct2, THEN conjunct1] p show ?thesis by (intro conjI) simp_all
qed

subsection \<open>Selection of every second frame\<close>

lemma selected_ok:
  assumes "detect env img = Inr ds" and "send_ok env (frame_count s)"
  shows "selected env s img =
     (None, s\<lparr>sent := sent s @ [\<lparr>frame_id = frame_count s, capture_ts = clock env (frame_count s) 0,
        recv_ts = clock env (frame_count s) 1, inference_ts = clock env (frame_count s) 4,
        detections = ds\<rparr>]\<rparr>)"
  using assms by (simp add: selected_def process_frame_def and_then_def Let_def)

lemma track_step_ok:
  assumes "frame_ok env (Suc (frame_count s)) ev"
  shows "frame_count (track_step env s ev) = Suc (frame_count s)
       \<and> looping (track_step env s ev) = looping s
       \<and> map frame_id (sent (track_step env s ev))
           = map frame_id (sent s) @ (if Suc (frame_count s) mod 2 = 0 then [Suc (frame_count s)] else [])"
proof -
  from assms obtain frame img where ev: "ev = Frame frame" and img: "to_ndarray frame = Inr img"
    by (auto simp: frame_ok_def split: recv.splits sum.splits)
  let ?s1 = "s\<lparr>frame_count := frame_count s + 1\<rparr>"
  show ?thesis
  proof (cases "Suc (frame_count s) mod 2 = 0")
    case True
    with assms ev img obtain ds where ds: "detect env img = Inr ds"
      and ok: "send_ok env (Suc (frame_count s))"
      by (auto simp: frame_ok_def split: sum.splits)
    from ok have "send_ok env (frame_count ?s1)" by simp
    from selected_ok[OF ds this] ev img True show ?thesis
      by (simp add: track_step_def track_try_def Let_def)
  next
    case False
    with ev img show ?thesis
      by (simp add: track_step_def track_try_def Let_def)
  qed
qed

lemma half_step:
  "(k + Suc m) div 2 - k div 2 = ((k + m) div 2 - k div 2) + (if Suc (k + m) mod 2 = 0 then 1 else 0)"
proof -
  have mono: "k div 2 \<le> (k + m) div 2" by (rule div_le_mono) simp
  show ?thesis
  proof (cases "Suc (k + m) mod 2 = 0")
    case True
    then have "Suc (k + m) div 2 = Suc ((k + m) div 2)" by arith
    with mono True show ?thesis by (simp add: Suc_diff_le)
  next
    case False
    then have "Suc (k + m) div 2 = (k + m) div 2" by arith
    with False show ?thesis by simp
  qed
qed

lemma count_even_between:
  "length (filter (\<lambda>k. k mod 2 = 0) [Suc k ..< Suc (k + m)]) = (k + m) div 2 - k div 2"
proof (induction m)
  case 0
  show ?case by simp
next
  case (Suc m)
  have split: "[Suc k ..< Suc (k + Suc m)] = [Suc k ..< Suc (k + m)] @ [Suc (k + m)]"
    by simp
  have "length (filter (\<lambda>k. k mod 2 = 0) [Suc k ..< Suc (k + Suc m)])
      = length (filter (\<lambda>k. k mod 2 = 0) [Suc k ..< Suc (k + m)])
        + (if Suc (k + m) mod 2 = 0 then 1 else 0)"
    unfolding split by (simp del: upt_Suc)
  also have "\<dots> = ((k + m) div 2 - k div 2) + (if Suc (k + m) mod 2 = 0 then 1 else 0)"
    by (simp only: Suc.IH)
  also have "\<dots> = (k + Suc m) div 2 - k div 2"
    by (simp only: half_step)
  finally show ?case .
qed

lemma from_even: "k mod 2 = 0 \<Longrightarrow> (k + n) div 2 - k div 2 = n div (2::nat)"
  by arith

lemma frames_ok_run:
  assumes "looping s" and "frames_ok env (frame_count s) evs"
  shows "frame_count (process_video_track env s evs) = frame_count s + length evs
       \<and> looping (process_video_track env s evs)
       \<and> map frame_id (sent (process_video_track env s evs))
           = map frame_id (sent s)
             @ filter (\<lambda>k. k mod 2 = 0) [Suc (frame_count s) ..< Suc (frame_count s + length evs)]"
  using assms
proof (induction evs arbitrary: s)
  case Nil
  then show ?case by simp
next
  case (Cons ev evs)
  let ?s' = "track_step env s ev"
  from Cons.prems have ok: "frame_ok env (Suc (frame_count s)) ev"
    and rest: "frames_ok env (Suc (frame_count s)) evs" by simp_all
  note st = track_step_ok[OF ok]
  from st Cons.prems(1) have l: "looping ?s'" by simp
  from st rest have "frames_ok env (frame_count ?s') evs" by simp
  note ih = Cons.IH[OF l this]
  have up: "[Suc (frame_count s) ..< Suc (Suc (frame_count s + length evs))]
      = Suc (frame_count s) # [Suc (Suc (frame_count s)) ..< Suc (Suc (frame_count s + length evs))]"
    by (rule upt_conv_Cons) simp
  from ih st l show ?case
    by (simp add: Let_def up del: upt_Suc)
qed

text \<open>
  Claim C9 counts \<open>floor(M / N)\<close> selected frames in every \<open>M\<close> consecutive frames. The
  three frames that follow the first frame of a track are the second, third and fourth:
  two of them are selected, and \<open>floor(3 / 2) = 1\<close>.
\<close>

theorem window_after_odd_count:
  "sent (process_video_track quiet_env (track_start VideoProcessor_init) [good_frame 1]) = []
   \<and> map frame_id (sent (process_video_track quiet_env
        (process_video_track quiet_env (track_start VideoProcessor_init) [good_frame 1])
        [good_frame 2, good_frame 3, good_frame 4])) = [2, 4]
   \<and> length [good_frame 2, good_frame 3, good_frame 4] div 2 = 1"
  by (simp add: track_defs)

text \<open>
  C9, as the code has it: the interval is the constant 2, and a frame is selected when
  the counter, incremented at its arrival, is even. When \<open>M\<close> consecutive frames are
  handled without an exception after \<open>k\<close> earlier frames, the results sent are those of
  the even counts among \<open>k + 1 .. k + M\<close>, which are \<open>(k + M) div 2 - k div 2\<close> frames: this
  is \<open>floor(M / 2)\<close> when \<open>k\<close> is even, in particular at the start of a track. The other
  frames are converted and dropped: no result is sent for them.
\<close>

theorem every_second_frame_selected:
  assumes "looping s" and "frames_ok env (frame_count s) evs"
  shows "map frame_id (sent (process_video_track env s evs))
           = map frame_id (sent s)
             @ filter (\<lambda>k. k mod 2 = 0) [Suc (frame_count s) ..< Suc (frame_count s + length evs)]
       \<and> length (sent (process_video_track env s evs))
           = length (sent s) + ((frame_count s + length evs) div 2 - frame_count s div 2)
       \<and> (frame_count s mod 2 = 0 \<longrightarrow>
            length (sent (process_video_track env s evs)) = length (sent s) + length evs div 2)"
proof -
  note run = frames_ok_run[OF assms]
  from run have ids: "map frame_id (sent (process_video_track env s evs))
           = map frame_id (sent s)
             @ filter (\<lambda>k. k mod 2 = 0) [Suc (frame_count s) ..< Suc (frame_count s + length evs)]"
    by simp
  have "length (sent (process_video_track env s evs))
      = length (map frame_id (sent (process_video_track env s evs)))" by simp
  also have "\<dots> = length (sent s)
      + length (filter (\<lambda>k. k mod 2 = 0) [Suc (frame_count s) ..< Suc (frame_count s + length evs)])"
    by (simp only: ids length_append length_map)
  finally have len: "length (sent (process_video_track env s evs))
           = length (sent s) + ((frame_count s + length evs) div 2 - frame_count s div 2)"
    by (simp only: count_even_between)
  have start: "frame_count s mod 2 = 0 \<longrightarrow>
      length (sent (process_video_track env s evs)) = length (sent s) + length evs div 2"
  proof
    assume "frame_count s mod 2 = 0"
    then have "(frame_count s + length evs) div 2 - frame_count s div 2 = length evs div 2"
      by (rule from_even)
    with len show "length (sent (process_video_track env s evs)) = length (sent s) + length evs div 2"
      by (simp only:)
  qed
  from ids len start show ?thesis by (intro conjI)
qed

text \<open>The theorem at the first five frames of a track.\<close>

theorem every_second_frame_selected_witness:
  "frames_ok quiet_env 0 [good_frame 1, good_frame 2, good_frame 3, good_frame 4, good_frame 5]
   \<and> map frame_id (sent (process_video_track quiet_env (track_start VideoProcessor_init)
        [good_frame 1, good_frame 2, good_frame 3, good_frame 4, good_frame 5])) = [2, 4]
   \<and> length (sent (process_video_track quiet_env (track_start VideoProcessor_init)
        [good_frame 1, good_frame 2, good_frame 3, good_frame 4, good_frame 5])) = 5 div 2"
proof -
  let ?s0 = "track_start VideoProcessor_init"
  let ?evs = "[good_frame 1, good_frame 2, good_frame 3, good_frame 4, good_frame 5]"
  have a: "looping ?s0" by (simp add: track_start_def)
  have b: "frames_ok quiet_env (frame_count ?s0) ?evs"
    by (simp add: track_start_def frame_ok_def good_frame_def quiet_env_def detect_def and_then_def)
  have c: "frame_count ?s0 mod 2 = 0" by (simp add: track_start_def)
  note T = every_second_frame_selected[OF a b]
  from T[THEN conjunct1]
  have ids: "map frame_id (sent (process_video_track quiet_env ?s0 ?evs)) = [2, 4]"
    by (simp add: track_start_def upt_rec del: upt_Suc)
  from T[THEN conjunct2, THEN conjunct2, THEN mp, OF c]
  have len: "length (sent (process_video_track quiet_env ?s0 ?evs)) = 5 div 2"
    by (simp add: track_start_def)
  from b have b': "frames_ok quiet_env 0 ?evs" by (simp add: track_start_def)
  from b' ids len show ?thesis by (intro conjI)
qed

section \<open>Properties of the signaling\<close>

lemmas server_defs = handle_offer_def handle_answer_def handle_ice_candidate_def cleanup_def
  handle_websocket_def active_pcs_def WebRTCServer_init_def

text \<open>
  Claim C7: at most one peer connection of a connection is active at any time. A second
  offer stores a new peer connection under the connection's key and does not close the
  one it replaces: after two offers both are active, and when the connection goes the
  \<open>finally\<close> block closes the second one only. After a single offer it closes the one
  there is.
\<close>

theorem second_offer_leaves_first_handle_open:
  "active_pcs (snd (handle_messages WebRTCServer_init 7 [Offer True, Offer True])) 7 = [0, 1]
   \<and> peer_connections (snd (handle_messages WebRTCServer_init 7 [Offer True, Offer True])) 7 = Some 1
   \<and> active_pcs (snd (handle_websocket WebRTCServer_init 7 [Offer True, Offer True])) 7 = [0]
   \<and> closed_pcs (snd (handle_websocket WebRTCServer_init 7 [Offer True, Offer True])) = [1]
   \<and> active_pcs (snd (handle_websocket WebRTCServer_init 7 [Offer True])) 7 = []"
  by (simp add: server_defs Let_def)

end
